theory Spec2Isabelle
  imports Complex_Main "HOL-Library.Word"
begin

section \<open>The Dogecoin wallet API of adamant-im (src/lib/doge-api.js)\<close>

text \<open>
  The module exports one class, \<^verbatim>\<open>DogeApi\<close>. Its methods are embedded below as HOL
  functions, one per method, under the method's own name (a leading underscore is dropped,
  since an Isabelle name cannot start with one: \<^verbatim>\<open>_buildTransaction\<close> is
  \<open>buildTransaction\<close>, \<^verbatim>\<open>_getClient\<close> is \<open>getClient\<close>).

  Conventions of the embedding:
  \<^item> A JavaScript number is a \<open>real\<close>, and \<^verbatim>\<open>Math.floor\<close> is the floor of the reals.
    Every concrete evaluation below stays on values that an IEEE double represents
    exactly, so the rounding of doubles plays no part in them.
  \<^item> A JavaScript string is a \<open>string\<close>, read as its UTF-8 bytes; a \<^verbatim>\<open>Buffer\<close> is a
    list of bytes.
  \<^item> An exception (or a rejected promise) is the left summand of a sum type.
  \<^item> Where a parameter of the source has the name of a record field (\<^verbatim>\<open>amount\<close>), the
    parameter is spelt \<open>amnt\<close>; the local \<^verbatim>\<open>amount\<close> of the loop body is \<open>satoshis\<close>.
  \<^item> The imported packages (coininfo, bitcoinjs-lib, axios) are not part of this module.
    What the module needs of them is either a parameter (the record \<open>libs\<close>: the hash, the
    curve, the address encoding, the wire serialisation) or, for the objects the module
    drives call by call (the transaction builder, the key pair, the axios instance), a
    record of what the module handed to them.
\<close>

subsection \<open>Module constants\<close>

type_synonym byte = "8 word"
type_synonym buffer = "byte list"

definition MULTIPLIER :: real where
  "MULTIPLIER = 100000000"

text \<open>\<^verbatim>\<open>const TX_FEE = 1 // 1 DOGE per transaction\<close>\<close>

definition TX_FEE :: real where
  "TX_FEE = 1"

definition Math_floor :: "real \<Rightarrow> real" where
  "Math_floor x = of_int \<lfloor>x\<rfloor>"

text \<open>The value of \<^verbatim>\<open>coininfo.dogecoin.main.toBitcoinJS()\<close>, as far as the module reads it.\<close>

record coin_format =
  fmt_name :: string
  fmt_bip32_public :: "32 word"
  fmt_bip32_private :: "32 word"
  fmt_pubKeyHash :: byte
  fmt_scriptHash :: byte
  fmt_wif :: byte

record network_params =
  messagePrefix :: string
  bip32_public :: "32 word"
  bip32_private :: "32 word"
  pubKeyHash :: byte
  scriptHash :: byte
  wif :: byte

definition network :: "coin_format \<Rightarrow> network_params" where
  "network fmt =
     \<lparr> messagePrefix = [char_of (25::nat)] @ fmt_name fmt @ '' Signed Message:'' @ [char_of (10::nat)],
       bip32_public = fmt_bip32_public fmt,
       bip32_private = fmt_bip32_private fmt,
       pubKeyHash = fmt_pubKeyHash fmt,
       scriptHash = fmt_scriptHash fmt,
       wif = fmt_wif fmt \<rparr>"

subsection \<open>Key pairs and the transaction builder\<close>

datatype error = TypeError | RequestFailed

record keypair =
  privateKey :: buffer
  publicKey :: buffer
  kp_network :: network_params

text \<open>
  The builder object of bitcoinjs-lib, as the calls the module makes on it:
  \<^verbatim>\<open>setVersion\<close>, \<^verbatim>\<open>addInput(txid, vout)\<close>, \<^verbatim>\<open>addOutput(address, value)\<close> and
  \<^verbatim>\<open>sign(vin, keyPair)\<close>, each kept in call order.
\<close>

record txbuilder =
  tb_network :: network_params
  tb_version :: nat
  tb_ins :: "(string \<times> nat) list"
  tb_outs :: "(string \<times> real) list"
  tb_signed :: "(nat \<times> keypair) list"

definition TransactionBuilder :: "network_params \<Rightarrow> txbuilder" where
  "TransactionBuilder n =
     \<lparr> tb_network = n, tb_version = 2, tb_ins = [], tb_outs = [], tb_signed = [] \<rparr>"

definition setVersion :: "nat \<Rightarrow> txbuilder \<Rightarrow> txbuilder" where
  "setVersion v txb = txb\<lparr> tb_version := v \<rparr>"

definition addInput :: "string \<Rightarrow> nat \<Rightarrow> txbuilder \<Rightarrow> txbuilder" where
  "addInput txHash vout txb = txb\<lparr> tb_ins := tb_ins txb @ [(txHash, vout)] \<rparr>"

definition addOutput :: "string \<Rightarrow> real \<Rightarrow> txbuilder \<Rightarrow> txbuilder" where
  "addOutput addr v txb = txb\<lparr> tb_outs := tb_outs txb @ [(addr, v)] \<rparr>"

definition sign :: "nat \<Rightarrow> keypair \<Rightarrow> txbuilder \<Rightarrow> txbuilder" where
  "sign vin kp txb = txb\<lparr> tb_signed := tb_signed txb @ [(vin, kp)] \<rparr>"

text \<open>What the module takes from its imports as functions.\<close>

record libs =
  fmt :: coin_format
  sha256 :: "buffer \<Rightarrow> buffer"
  isPrivate :: "buffer \<Rightarrow> bool"
  pointFromScalar :: "buffer \<Rightarrow> buffer"
  p2pkh_address :: "buffer \<Rightarrow> network_params \<Rightarrow> string"
  toBuffer :: "txbuilder \<Rightarrow> buffer"

text \<open>
  \<^verbatim>\<open>ECPair.fromPrivateKey(buffer, { network })\<close>: the buffer must be 32 bytes and a scalar
  of the curve, else the call throws a TypeError; the pair keeps the buffer as its private
  key and its public key is the curve point of that scalar.
\<close>

definition ECPair_fromPrivateKey :: "libs \<Rightarrow> buffer \<Rightarrow> network_params \<Rightarrow> error + keypair" where
  "ECPair_fromPrivateKey L d n =
     (if length d = 32 \<and> isPrivate L d
      then Inr \<lparr> privateKey = d, publicKey = pointFromScalar L d, kp_network = n \<rparr>
      else Inl TypeError)"

subsection \<open>Hexadecimal strings and buffers\<close>

text \<open>\<^verbatim>\<open>Buffer.from(string)\<close>: the bytes of the string.\<close>

definition Buffer_from :: "string \<Rightarrow> buffer" where
  "Buffer_from s = map (\<lambda>c. of_nat (of_char c)) s"

definition hex_digit :: "nat \<Rightarrow> char" where
  "hex_digit n = ''0123456789abcdef'' ! (n mod 16)"

text \<open>\<^verbatim>\<open>buffer.toString('hex')\<close>: two lowercase digits for each byte.\<close>

definition toString_hex :: "buffer \<Rightarrow> string" where
  "toString_hex bs = concat (map (\<lambda>b. [hex_digit (unat b div 16), hex_digit (unat b mod 16)]) bs)"

definition hex_value :: "char \<Rightarrow> nat option" where
  "hex_value c =
     (let n = of_char c :: nat in
      if 48 \<le> n \<and> n \<le> 57 then Some (n - 48)
      else if 97 \<le> n \<and> n \<le> 102 then Some (n - 87)
      else if 65 \<le> n \<and> n \<le> 70 then Some (n - 55)
      else None)"

text \<open>
  \<^verbatim>\<open>Buffer.from(hex, 'hex')\<close>: one byte for each pair of hex digits, stopping at the first
  pair that is not two hex digits; a last single character is dropped.
\<close>

fun Buffer_from_hex :: "string \<Rightarrow> buffer" where
  "Buffer_from_hex (a # b # rest) =
     (case (hex_value a, hex_value b) of
        (Some h, Some l) \<Rightarrow> of_nat (16 * h + l) # Buffer_from_hex rest
      | _ \<Rightarrow> [])"
| "Buffer_from_hex _ = []"

definition line_terminator :: "char \<Rightarrow> bool" where
  "line_terminator c = (of_char c = (10::nat) \<or> of_char c = (13::nat))"

text \<open>
  \<^verbatim>\<open>s.match(/.{2}/g)\<close>: the successive non-overlapping pairs of characters other than
  line terminators, scanning from the left; \<^verbatim>\<open>null\<close> (here \<open>None\<close>) when there is no
  such pair.
\<close>

fun match_pairs_all :: "string \<Rightarrow> string list" where
  "match_pairs_all (a # b # rest) =
     (if line_terminator a then match_pairs_all (b # rest)
      else if line_terminator b then match_pairs_all rest
      else [a, b] # match_pairs_all rest)"
| "match_pairs_all _ = []"

definition match_pairs :: "string \<Rightarrow> string list option" where
  "match_pairs s = (case match_pairs_all s of [] \<Rightarrow> None | ms \<Rightarrow> Some ms)"

subsection \<open>The wallet object\<close>

text \<open>
  \<^verbatim>\<open>this._clients\<close> starts as the empty object literal and is read by property name. The
  only other object the module ever stores there is an axios instance. A property read
  gives the own property, else the member found on the prototype chain, else
  \<^verbatim>\<open>undefined\<close>.
\<close>

datatype axios = Axios (baseURL: string)

datatype js_value = Undefined | Member string | Client axios

datatype js_object = ObjectLiteral "(string \<times> js_value) list" | Instance axios

definition Object_prototype :: "string list" where
  "Object_prototype =
     [''constructor'', ''__proto__'', ''hasOwnProperty'', ''isPrototypeOf'',
      ''propertyIsEnumerable'', ''toString'', ''toLocaleString'', ''valueOf'',
      ''__defineGetter__'', ''__defineSetter__'', ''__lookupGetter__'', ''__lookupSetter__'']"

definition Function_prototype :: "string list" where
  "Function_prototype = [''apply'', ''bind'', ''call'', ''length'', ''name'', ''arguments'', ''caller'']"

definition axios_members :: "string list" where
  "axios_members =
     [''request'', ''getUri'', ''get'', ''delete'', ''head'', ''options'', ''post'', ''put'',
      ''patch'', ''defaults'', ''interceptors'']"

fun property :: "js_object \<Rightarrow> string \<Rightarrow> js_value" where
  "property (ObjectLiteral ps) k =
     (case map_of ps k of
        Some v \<Rightarrow> v
      | None \<Rightarrow> if k \<in> set Object_prototype then Member k else Undefined)"
| "property (Instance a) k =
     (if k \<in> set (axios_members @ Function_prototype @ Object_prototype) then Member k
      else Undefined)"

definition truthy :: "js_value \<Rightarrow> bool" where
  "truthy v = (v \<noteq> Undefined)"

record doge_api =
  keyPair :: keypair
  address :: string
  clients :: js_object

subsection \<open>Building a transaction\<close>

record unspent =
  txid :: string
  amount :: real

text \<open>
  The loop reads \<^verbatim>\<open>txid\<close> and \<^verbatim>\<open>amount\<close> only, so the functions below take any
  extension of the record. One such extension is an output that carries its own index.
\<close>

record utxo = unspent +
  vout :: nat

text \<open>
  The state of the \<^verbatim>\<open>forEach\<close> loop of \<^verbatim>\<open>_buildTransaction\<close>: the builder and the two
  counters \<^verbatim>\<open>transferAmount\<close> and \<^verbatim>\<open>inputs\<close>.
\<close>

record selection =
  txb :: txbuilder
  transferAmount :: real
  inputs :: nat

definition forEach_body :: "real \<Rightarrow> selection \<Rightarrow> 'a unspent_scheme \<Rightarrow> selection" where
  "forEach_body target s tx =
     (let satoshis = Math_floor (amount tx * MULTIPLIER) in
      if transferAmount s < target
      then \<lparr> txb = addInput (txid tx) (inputs s) (txb s),
             transferAmount = transferAmount s + satoshis,
             inputs = inputs s + 1 \<rparr>
      else s)"

definition target_amount :: "real \<Rightarrow> real" where
  "target_amount amnt = (amnt + TX_FEE) * MULTIPLIER"

definition select_inputs :: "txbuilder \<Rightarrow> real \<Rightarrow> 'a unspent_scheme list \<Rightarrow> selection" where
  "select_inputs t target unspents =
     foldl (forEach_body target) \<lparr> txb = t, transferAmount = 0, inputs = 0 \<rparr> unspents"

text \<open>
  Two notions used to state what the loop does: the value of an unspent output in the
  smallest unit, as the loop body computes it, and the number of outputs the loop turns
  into inputs when it starts with the running total \<open>t\<close>.
\<close>

definition satoshis_of :: "'a unspent_scheme \<Rightarrow> real" where
  "satoshis_of tx = Math_floor (amount tx * MULTIPLIER)"

fun selected_count :: "real \<Rightarrow> real \<Rightarrow> 'a unspent_scheme list \<Rightarrow> nat" where
  "selected_count target t [] = 0"
| "selected_count target t (tx # rest) =
     (if t < target then Suc (selected_count target (t + satoshis_of tx) rest) else 0)"


text \<open>The builder of \<^verbatim>\<open>_buildTransaction\<close> as it stands just before \<^verbatim>\<open>txb.build()\<close>.\<close>

definition buildTransaction_txb ::
    "libs \<Rightarrow> doge_api \<Rightarrow> string \<Rightarrow> real \<Rightarrow> 'a unspent_scheme list \<Rightarrow> txbuilder" where
  "buildTransaction_txb L this addr amnt unspents =
     (let t0 = setVersion 1 (TransactionBuilder (network (fmt L)));
          target = target_amount amnt;
          s = select_inputs t0 target unspents;
          t1 = addOutput addr amnt (txb s);
          t2 = addOutput (address this) (transferAmount s - target) t1
      in foldl (\<lambda>t i. sign i (keyPair this) t) t2 [0..<inputs s])"

definition buildTransaction ::
    "libs \<Rightarrow> doge_api \<Rightarrow> string \<Rightarrow> real \<Rightarrow> 'a unspent_scheme list \<Rightarrow> string" where
  "buildTransaction L this addr amnt unspents =
     toString_hex (toBuffer L (buildTransaction_txb L this addr amnt unspents))"

subsection \<open>Requests\<close>

text \<open>
  What the module does to the outside: it draws an endpoint at random and it sends
  requests. The world holds the state of the random source and the requests sent so far,
  in order.
\<close>

datatype request =
    GET string string "(string \<times> string) list"
  | POST string string "(string \<times> string) list"

record 'r world =
  rng :: 'r
  sent :: "request list"

text \<open>
  The constructor, \<^verbatim>\<open>new DogeApi(passphrase)\<close>, run in a world like every other
  operation of the class. It throws what \<^verbatim>\<open>ECPair.fromPrivateKey\<close> throws.
\<close>

definition DogeApi :: "libs \<Rightarrow> string \<Rightarrow> 'r world \<Rightarrow> (error + doge_api) \<times> 'r world" where
  "DogeApi L passphrase w =
     (let pwHash = sha256 L (Buffer_from passphrase) in
      case ECPair_fromPrivateKey L pwHash (network (fmt L)) of
        Inl e \<Rightarrow> (Inl e, w)
      | Inr kp \<Rightarrow>
          (Inr \<lparr> keyPair = kp,
                 address = p2pkh_address L (publicKey kp) (network (fmt L)),
                 clients = ObjectLiteral [] \<rparr>, w))"

text \<open>
  The two things the requests depend on and this module does not define:
  \<open>getEnpointUrl\<close> stands for \<^verbatim>\<open>() => getEnpointUrl(Cryptos.DOGE)\<close> of
  \<^verbatim>\<open>./getEndpointUrl\<close>, which picks an endpoint with the random source; \<open>respond\<close> is the
  answer of the remote service to a request, the \<^verbatim>\<open>data\<close> of the response or a failure.
\<close>

record ('r, 'd) remote =
  getEnpointUrl :: "'r \<Rightarrow> string \<times> 'r"
  respond :: "request \<Rightarrow> error + 'd"

text \<open>\<^verbatim>\<open>_getClient()\<close>: returns the value of \<^verbatim>\<open>this._clients[url]\<close> after the update.\<close>

definition getClient ::
    "('r, 'd) remote \<Rightarrow> doge_api \<times> 'r world \<Rightarrow> js_value \<times> doge_api \<times> 'r world" where
  "getClient R st =
     (case st of (this, w) \<Rightarrow>
      (let (url, r) = getEnpointUrl R (rng w);
           w' = w\<lparr> rng := r \<rparr>;
           this' = (if \<not> truthy (property (clients this) url)
                    then this\<lparr> clients := Instance (Axios url) \<rparr>
                    else this)
       in (property (clients this') url, this', w')))"

text \<open>
  A method call on the value \<^verbatim>\<open>_getClient()\<close> returned. Only an axios instance has
  \<^verbatim>\<open>get\<close> and \<^verbatim>\<open>post\<close>; on \<^verbatim>\<open>undefined\<close> the property read throws a TypeError, and
  on any other value the property is not a function, so the call throws a TypeError.
\<close>

definition call_client ::
    "('r, 'd) remote \<Rightarrow> (string \<Rightarrow> request) \<Rightarrow> js_value \<times> doge_api \<times> 'r world
       \<Rightarrow> (error + 'd) \<times> doge_api \<times> 'r world" where
  "call_client R rq res =
     (case res of (c, this, w) \<Rightarrow>
      (case c of
         Client a \<Rightarrow> (respond R (rq (baseURL a)), this, w\<lparr> sent := sent w @ [rq (baseURL a)] \<rparr>)
       | _ \<Rightarrow> (Inl TypeError, this, w)))"

text \<open>\<^verbatim>\<open>_get(url, params)\<close>\<close>

definition get ::
    "('r, 'd) remote \<Rightarrow> string \<Rightarrow> (string \<times> string) list \<Rightarrow> doge_api \<times> 'r world
       \<Rightarrow> (error + 'd) \<times> doge_api \<times> 'r world" where
  "get R url params st = call_client R (\<lambda>base. GET base url params) (getClient R st)"

text \<open>\<^verbatim>\<open>_post(url, data)\<close>: the form is filled first, then the client is asked for.\<close>

definition post ::
    "('r, 'd) remote \<Rightarrow> string \<Rightarrow> (string \<times> string) list \<Rightarrow> doge_api \<times> 'r world
       \<Rightarrow> (error + 'd) \<times> doge_api \<times> 'r world" where
  "post R url data st =
     (let fd = foldl (\<lambda>form kv. form @ [kv]) [] data
      in call_client R (\<lambda>base. POST base url fd) (getClient R st))"

definition sendTransaction ::
    "('r, 'd) remote \<Rightarrow> string \<Rightarrow> doge_api \<times> 'r world \<Rightarrow> (error + 'd) \<times> doge_api \<times> 'r world" where
  "sendTransaction R txHex st = post R ''/tx/send'' [(''rawtx'', txHex)] st"

subsection \<open>Creating a transaction\<close>

record tx_result =
  r_hex :: string
  r_txid :: string

text \<open>
  The callback that \<^verbatim>\<open>createTransaction\<close> runs on the unspent outputs received;
  \<open>amnt\<close> is the amount after the conversion on the first line of \<^verbatim>\<open>createTransaction\<close>.
  \<^verbatim>\<open>.reverse()\<close> on the \<^verbatim>\<open>null\<close> of a failed match throws a TypeError.
\<close>

definition createTransaction_then ::
    "libs \<Rightarrow> doge_api \<Rightarrow> string \<Rightarrow> real \<Rightarrow> 'a unspent_scheme list \<Rightarrow> error + tx_result" where
  "createTransaction_then L this addr amnt unspents =
     (let hex = buildTransaction L this addr amnt unspents;
          h1 = sha256 L (Buffer_from_hex hex);
          h2 = sha256 L h1
      in case match_pairs (toString_hex h2) of
           None \<Rightarrow> Inl TypeError
         | Some ps \<Rightarrow> Inr \<lparr> r_hex = hex, r_txid = concat (rev ps) \<rparr>)"

text \<open>The conversion \<^verbatim>\<open>amount = Math.floor(Number(amount) * MULTIPLIER)\<close>.\<close>

definition to_satoshis :: "real \<Rightarrow> real" where
  "to_satoshis amnt = Math_floor (amnt * MULTIPLIER)"

definition createTransaction ::
    "('r, 'a unspent_scheme list) remote \<Rightarrow> libs \<Rightarrow> string \<Rightarrow> real \<Rightarrow> doge_api \<times> 'r world
       \<Rightarrow> (error + tx_result) \<times> doge_api \<times> 'r world" where
  "createTransaction R L addr amnt st =
     (let amnt = to_satoshis amnt in
      case get R (''/addr/'' @ address (fst st) @ ''/utxo?noCache=1'') [] st of
        (Inl e, st') \<Rightarrow> (Inl e, st')
      | (Inr unspents, st') \<Rightarrow> (createTransaction_then L (fst st') addr amnt unspents, st'))"

subsection \<open>A concrete instance\<close>

text \<open>
  Stand-ins for the imported functions, small enough to evaluate, on which the theorems
  below are instantiated: the Dogecoin main network parameters, a 32-byte function in the
  place of the hash, a tag byte in front of the scalar in the place of the curve point, and
  three header bytes in the place of the wire format. No theorem is about them.
\<close>

definition demo_hash :: "buffer \<Rightarrow> buffer" where
  "demo_hash b = map (\<lambda>x. x + 1) (take 32 (b @ replicate 32 0))"

definition demo_libs :: libs where
  "demo_libs =
     \<lparr> fmt = \<lparr> fmt_name = ''Dogecoin'', fmt_bip32_public = 0x02facafd,
               fmt_bip32_private = 0x02fac398, fmt_pubKeyHash = 0x1e,
               fmt_scriptHash = 0x16, fmt_wif = 0x9e \<rparr>,
       sha256 = demo_hash,
       isPrivate = list_ex (\<lambda>x. x \<noteq> 0),
       pointFromScalar = (\<lambda>d. 2 # d),
       p2pkh_address = (\<lambda>pk n. ''DOwnAddress''),
       toBuffer = (\<lambda>t. [of_nat (tb_version t), of_nat (length (tb_ins t)),
                          of_nat (length (tb_outs t))]) \<rparr>"

definition demo_key :: buffer where
  "demo_key = demo_hash (Buffer_from ''test'')"

definition demo_wallet :: doge_api where
  "demo_wallet =
     \<lparr> keyPair = \<lparr> privateKey = demo_key, publicKey = 2 # demo_key,
                   kp_network = network (fmt demo_libs) \<rparr>,
       address = ''DOwnAddress'',
       clients = ObjectLiteral [] \<rparr>"

definition demo_remote :: "(nat, 'd list) remote" where
  "demo_remote =
     \<lparr> getEnpointUrl = (\<lambda>r. (''https://dogenode'' @ [hex_digit r] @ ''.adamant.im'', r + 1)),
       respond = (\<lambda>rq. Inr []) \<rparr>"

definition demo_world :: "nat world" where
  "demo_world = \<lparr> rng = 1, sent = [] \<rparr>"

definition aa32 :: string where
  "aa32 = concat (replicate 32 ''aa'')"


section \<open>The selection loop\<close>

text \<open>Once the running total has reached the target, the loop changes nothing.\<close>

lemma forEach_skip:
  "\<not> transferAmount s < target \<Longrightarrow> foldl (forEach_body target) s us = s"
  by (induction us) (simp_all add: forEach_body_def)

lemma selected_count_le: "selected_count target t us \<le> length us"
  by (induction us arbitrary: t) simp_all

lemma selected_count_0: "\<not> t < target \<Longrightarrow> selected_count target t us = 0"
  by (cases us) simp_all



lemma forEach_fold:
  "foldl (forEach_body target) s us =
     \<lparr> txb = (txb s)\<lparr> tb_ins := tb_ins (txb s) @
              zip (map txid (take (selected_count target (transferAmount s) us) us))
                  [inputs s ..< inputs s + selected_count target (transferAmount s) us] \<rparr>,
       transferAmount = transferAmount s +
         sum_list (map satoshis_of (take (selected_count target (transferAmount s) us) us)),
       inputs = inputs s + selected_count target (transferAmount s) us \<rparr>"
proof (induction us arbitrary: s)
  case Nil
  then show ?case by simp
next
  case (Cons u us)
  show ?case
  proof (cases "transferAmount s < target")
    case False
    then show ?thesis
      using forEach_skip [of s target "u # us"] by simp
  next
    case True
    let ?s = "forEach_body target s u"
    have s': "?s = \<lparr> txb = addInput (txid u) (inputs s) (txb s),
             transferAmount = transferAmount s + satoshis_of u,
             inputs = inputs s + 1 \<rparr>"
      using True by (simp add: forEach_body_def satoshis_of_def)
    have "foldl (forEach_body target) s (u # us) = foldl (forEach_body target) ?s us"
      by simp
    also note Cons.IH [of ?s]
    finally show ?thesis
      using True by (simp add: s' addInput_def upt_conv_Cons add.assoc)
  qed
qed

lemma sign_fold:
  "foldl (\<lambda>t i. sign i kp t) t xs = t\<lparr> tb_signed := tb_signed t @ map (\<lambda>i. (i, kp)) xs \<rparr>"
  by (induction xs arbitrary: t) (simp_all add: sign_def)

lemma select_inputs_eq:
  "select_inputs t target us =
     \<lparr> txb = t\<lparr> tb_ins := tb_ins t @
              zip (map txid (take (selected_count target 0 us) us))
                  [0 ..< selected_count target 0 us] \<rparr>,
       transferAmount = sum_list (map satoshis_of (take (selected_count target 0 us) us)),
       inputs = selected_count target 0 us \<rparr>"
  unfolding select_inputs_def by (subst forEach_fold) simp

lemma buildTransaction_txb_eq:
  "buildTransaction_txb L this addr amnt us =
     \<lparr> tb_network = network (fmt L),
       tb_version = 1,
       tb_ins = zip (map txid (take (selected_count (target_amount amnt) 0 us) us))
                    [0 ..< selected_count (target_amount amnt) 0 us],
       tb_outs = [(addr, amnt),
                  (address this,
                   sum_list (map satoshis_of (take (selected_count (target_amount amnt) 0 us) us))
                     - target_amount amnt)],
       tb_signed = map (\<lambda>i. (i, keyPair this)) [0 ..< selected_count (target_amount amnt) 0 us] \<rparr>"
  by (simp add: buildTransaction_txb_def select_inputs_eq sign_fold Let_def
      addOutput_def setVersion_def TransactionBuilder_def)

lemma length_ins:
  "length (tb_ins (buildTransaction_txb L this addr amnt us)) = selected_count (target_amount amnt) 0 us"
  by (simp add: buildTransaction_txb_eq selected_count_le)

lemma inputs_select:
  "inputs (select_inputs t target us) = selected_count target 0 us"
  by (simp add: select_inputs_eq)

lemmas amounts = target_amount_def to_satoshis_def satoshis_of_def Math_floor_def
  MULTIPLIER_def TX_FEE_def




section \<open>The target amount\<close>

text \<open>
  Claim C1 says that the target used for the selection is the send amount plus the flat
  fee, each converted to the smallest unit once: \<open>(a + TX_FEE) * MULTIPLIER\<close>.
  \<^verbatim>\<open>createTransaction\<close> converts the amount and passes the converted amount on, and
  \<^verbatim>\<open>_buildTransaction\<close> adds the fee of one coin to it and converts the sum again. For a
  send amount of 1 coin the target is 10000000100000000 instead of 200000000, and with
  an unspent output of 5 coins the change handed to the builder is 500000000 less that
  target.
\<close>

theorem target_converted_twice:
  "target_amount (to_satoshis 1) = 10000000100000000 \<and>
   (1 + TX_FEE) * MULTIPLIER = 200000000 \<and>
   tb_outs (buildTransaction_txb demo_libs demo_wallet ''DDest'' (to_satoshis 1)
              [\<lparr> txid = aa32, amount = 5 \<rparr>])
     = [(''DDest'', 100000000), (''DOwnAddress'', 500000000 - 10000000100000000)]"
  by (simp add: buildTransaction_txb_eq amounts demo_wallet_def)

text \<open>The target of the code is the target of the claim for the send amount 0 and for no other.\<close>

lemma target_matches_only_at_zero:
  "target_amount (to_satoshis a) = (a + TX_FEE) * MULTIPLIER \<longleftrightarrow> a = 0"
proof
  assume eq: "target_amount (to_satoshis a) = (a + TX_FEE) * MULTIPLIER"
  define k where "k = \<lfloor>a * 100000000\<rfloor>"
  from eq have a: "a = of_int k"
    by (simp add: amounts k_def)
  then have "a * 100000000 = of_int (k * 100000000)" by simp
  then have "\<lfloor>a * 100000000\<rfloor> = k * 100000000" by (simp only: floor_of_int)
  then have "k = 0" by (simp add: k_def)
  with a show "a = 0" by simp
next
  assume "a = 0"
  then show "target_amount (to_satoshis a) = (a + TX_FEE) * MULTIPLIER"
    by (simp add: amounts)
qed

section \<open>Funds below the target\<close>




section \<open>The two outputs\<close>




section \<open>The example of the specification\<close>



section \<open>The inputs are a prefix, numbered as they are added\<close>

text \<open>
  Claim C10: the inputs of the builder are the transaction ids of a prefix of the
  unspent outputs, in their order, and the input at position \<open>i\<close> has the previous-output
  index \<open>i\<close>, the value of the counter \<^verbatim>\<open>inputs\<close> when it was added; the counter ends at
  the number of inputs. The list may be of any extension of the record \<open>unspent\<close>, so
  nothing else an unspent output carries has a part in it.
\<close>

theorem inputs_prefix_running_index:
  "length (tb_ins (buildTransaction_txb L this addr amnt us)) \<le> length us \<and>
   tb_ins (buildTransaction_txb L this addr amnt us)
     = zip (map txid (take (length (tb_ins (buildTransaction_txb L this addr amnt us))) us))
           [0 ..< length (tb_ins (buildTransaction_txb L this addr amnt us))] \<and>
   inputs (select_inputs t (target_amount amnt) us)
     = length (tb_ins (buildTransaction_txb L this addr amnt us))"
  unfolding length_ins by (simp add: buildTransaction_txb_eq selected_count_le inputs_select)

text \<open>An unspent output that says it is output 7 of its transaction is spent as output 0.\<close>

lemma index_of_unspent_ignored:
  "tb_ins (buildTransaction_txb demo_libs demo_wallet ''DDest'' (to_satoshis 1)
     [\<lparr> txid = aa32, amount = 5, vout = 7 \<rparr>]) = [(aa32, 0)]"
  by (simp add: buildTransaction_txb_eq amounts)

section \<open>Selection in the order given, up to the target\<close>




section \<open>The client of a fresh wallet\<close>

text \<open>No member of an object has a colon in its name, and every endpoint URL has one.\<close>

lemma colon_not_member:
  "CHR '':'' \<in> set k \<Longrightarrow> k \<notin> set (axios_members @ Function_prototype @ Object_prototype)"
  by (auto simp: axios_members_def Function_prototype_def Object_prototype_def)

lemma getClient_fresh:
  assumes "clients this = ObjectLiteral []"
    and "CHR '':'' \<in> set (fst (getEnpointUrl R (rng w)))"
  shows "getClient R (this, w) =
           (Undefined,
            this\<lparr> clients := Instance (Axios (fst (getEnpointUrl R (rng w)))) \<rparr>,
            w\<lparr> rng := snd (getEnpointUrl R (rng w)) \<rparr>)"
  using assms colon_not_member [OF assms(2)]
  by (simp add: getClient_def truthy_def Let_def split_beta)

text \<open>
  Claim C6: on a wallet whose \<^verbatim>\<open>_clients\<close> is still the empty object, for an endpoint
  URL (a string with a colon), \<^verbatim>\<open>_getClient\<close> replaces the whole of \<^verbatim>\<open>_clients\<close> by
  the new axios instance and returns \<^verbatim>\<open>undefined\<close>; \<^verbatim>\<open>_get\<close> and \<^verbatim>\<open>_post\<close> then fail
  with a TypeError and send no request.
\<close>

theorem first_request_fails:
  assumes "clients this = ObjectLiteral []"
    and "CHR '':'' \<in> set (fst (getEnpointUrl R (rng w)))"
  shows "getClient R (this, w) =
           (Undefined,
            this\<lparr> clients := Instance (Axios (fst (getEnpointUrl R (rng w)))) \<rparr>,
            w\<lparr> rng := snd (getEnpointUrl R (rng w)) \<rparr>) \<and>
         fst (get R url params (this, w)) = Inl TypeError \<and>
         sent (snd (snd (get R url params (this, w)))) = sent w \<and>
         fst (post R url data (this, w)) = Inl TypeError \<and>
         sent (snd (snd (post R url data (this, w)))) = sent w"
  by (simp add: getClient_fresh [OF assms] get_def post_def call_client_def)

text \<open>Claim C6 on the wallet and the world of the concrete instance.\<close>

theorem first_request_fails_witness:
  "clients demo_wallet = ObjectLiteral [] \<and>
   fst (getEnpointUrl (demo_remote :: (nat, unspent list) remote) (rng demo_world))
     = ''https://dogenode1.adamant.im'' \<and>
   fst (getClient (demo_remote :: (nat, unspent list) remote) (demo_wallet, demo_world)) = Undefined \<and>
   clients (fst (snd (getClient (demo_remote :: (nat, unspent list) remote) (demo_wallet, demo_world))))
     = Instance (Axios ''https://dogenode1.adamant.im'') \<and>
   fst (get (demo_remote :: (nat, unspent list) remote) ''/addr/DOwnAddress/utxo?noCache=1'' []
          (demo_wallet, demo_world)) = Inl TypeError \<and>
   sent (snd (snd (get (demo_remote :: (nat, unspent list) remote) ''/addr/DOwnAddress/utxo?noCache=1'' []
          (demo_wallet, demo_world)))) = [] \<and>
   fst (post (demo_remote :: (nat, unspent list) remote) ''/tx/send'' [(''rawtx'', ''010102'')]
          (demo_wallet, demo_world)) = Inl TypeError"
proof -
  have fresh: "clients demo_wallet = ObjectLiteral []"
    by (simp add: demo_wallet_def)
  have url: "fst (getEnpointUrl (demo_remote :: (nat, unspent list) remote) (rng demo_world))
     = ''https://dogenode1.adamant.im''"
    by (simp add: demo_remote_def demo_world_def hex_digit_def)
  have colon: "CHR '':'' \<in> set (fst (getEnpointUrl (demo_remote :: (nat, unspent list) remote) (rng demo_world)))"
    unfolding url by simp
  have unsent: "sent demo_world = []"
    by (simp add: demo_world_def)
  note r1 = first_request_fails [OF fresh colon, of "''/addr/DOwnAddress/utxo?noCache=1''" "[]" "[]"]
  note r2 = first_request_fails [OF fresh colon, of "''/tx/send''" "[]" "[(''rawtx'', ''010102'')]"]
  have g: "fst (get (demo_remote :: (nat, unspent list) remote) ''/addr/DOwnAddress/utxo?noCache=1'' []
          (demo_wallet, demo_world)) = Inl TypeError"
    using r1 by blast
  have s: "sent (snd (snd (get (demo_remote :: (nat, unspent list) remote) ''/addr/DOwnAddress/utxo?noCache=1'' []
          (demo_wallet, demo_world)))) = []"
    using r1 unfolding unsent by blast
  have p: "fst (post (demo_remote :: (nat, unspent list) remote) ''/tx/send'' [(''rawtx'', ''010102'')]
          (demo_wallet, demo_world)) = Inl TypeError"
    using r2 by blast
  have c: "getClient (demo_remote :: (nat, unspent list) remote) (demo_wallet, demo_world) =
      (Undefined, demo_wallet \<lparr>clients := Instance (Axios ''https://dogenode1.adamant.im'')\<rparr>,
       demo_world\<lparr>rng := snd (getEnpointUrl (demo_remote :: (nat, unspent list) remote) (rng demo_world))\<rparr>)"
    using r1 unfolding url by blast
  show ?thesis
    unfolding g s p c by (simp add: fresh url)
qed

text \<open>So \<^verbatim>\<open>createTransaction\<close> on a fresh wallet fails before its callback runs.\<close>

lemma createTransaction_fresh_fails:
  assumes "clients this = ObjectLiteral []"
    and "CHR '':'' \<in> set (fst (getEnpointUrl R (rng w)))"
  shows "fst (createTransaction R L addr amnt (this, w)) = Inl TypeError"
  by (simp add: createTransaction_def get_def call_client_def getClient_fresh [OF assms])

section \<open>Key derivation\<close>


text \<open>
  Claim C8: the private key of a constructed wallet is the hash of the bytes of the
  passphrase, applied once to those bytes and to nothing else; the public key and the
  address follow from it.
\<close>

theorem private_key_is_hash:
  assumes "fst (DogeApi L passphrase w) = Inr this"
  shows "privateKey (keyPair this) = sha256 L (Buffer_from passphrase) \<and>
         publicKey (keyPair this) = pointFromScalar L (sha256 L (Buffer_from passphrase)) \<and>
         address this = p2pkh_address L (publicKey (keyPair this)) (network (fmt L))"
  using assms
  by (auto simp: DogeApi_def ECPair_fromPrivateKey_def Let_def split: sum.splits if_splits)

lemma length_demo_hash: "length (demo_hash b) = 32"
  by (simp add: demo_hash_def)

text \<open>Claim C8 for the passphrase "test" on the concrete instance.\<close>

theorem private_key_is_hash_witness:
  "fst (DogeApi demo_libs ''test'' demo_world) = Inr demo_wallet \<and>
   privateKey (keyPair demo_wallet) = sha256 demo_libs (Buffer_from ''test'')"
proof -
  have nz: "list_ex (\<lambda>x. x \<noteq> 0) (demo_hash (Buffer_from ''test''))"
    by (simp add: demo_hash_def Buffer_from_def)
  have built: "fst (DogeApi demo_libs ''test'' demo_world) = Inr demo_wallet"
    using nz by (simp add: DogeApi_def ECPair_fromPrivateKey_def demo_libs_def demo_wallet_def
        demo_key_def length_demo_hash Let_def)
  from private_key_is_hash [OF built] built show ?thesis by simp
qed

section \<open>The transaction identifier\<close>














end
